theory Spec2Isabelle
  imports Main
begin

section \<open>Values, exceptions and dictionaries of the inventory module\<close>

text \<open>
  The module \<^verbatim>\<open>inventory_system.py\<close> is dynamically typed: \<^verbatim>\<open>add_item\<close> tests the
  classes of its arguments at run time, and \<^verbatim>\<open>load_data\<close> hands back whatever the file
  held. The values that reach the functions are therefore modelled by one datatype: the
  values a JSON document decodes to, and sets of integers, as the values a caller can pass
  for which subtraction is defined although they are no numbers. Floating-point and
  complex numbers are left out of the model, and so are objects of further classes.
\<close>

datatype pyval =
    PNone
  | PBool bool
  | PInt int
  | PStr string
  | PList "pyval list"
  | PDict "(string \<times> pyval) list"
  | PSet "int set"

text \<open>The exceptions that dictionary access and arithmetic raise.\<close>

datatype py_error = KeyError | TypeError

text \<open>
  What the functions print. The wording is not modelled, only which condition is reported.
\<close>

datatype message =
    InvalidInputTypes
  | NegativeQuantity
  | ItemNotFound pyval
  | InvalidData
  | NoInventoryFile
  | DecodeFailure
  | SaveFailure

text \<open>
  An inventory is a Python \<^verbatim>\<open>dict\<close> with string keys. Python dictionaries iterate in
  insertion order, so the model is an association list: assigning to a key that is present
  keeps its place, assigning to a new key appends it, deleting removes it.
\<close>

type_synonym stock = "(string \<times> pyval) list"

text \<open>\<^verbatim>\<open>isinstance(v, str)\<close> and \<^verbatim>\<open>isinstance(v, int)\<close>; \<^verbatim>\<open>bool\<close> is a subclass of \<^verbatim>\<open>int\<close>.\<close>

fun isinstance_str :: "pyval \<Rightarrow> bool" where
  "isinstance_str (PStr s) = True"
| "isinstance_str v = False"

fun isinstance_int :: "pyval \<Rightarrow> bool" where
  "isinstance_int (PInt n) = True"
| "isinstance_int (PBool b) = True"
| "isinstance_int v = False"


text \<open>The integer a number stands for in arithmetic; \<open>None\<close> for a value that is no number.\<close>

fun int_of :: "pyval \<Rightarrow> int option" where
  "int_of (PInt n) = Some n"
| "int_of (PBool b) = Some (if b then 1 else 0)"
| "int_of v = None"

text \<open>
  \<^verbatim>\<open>a + b\<close>: numbers add, strings and lists concatenate, everything else is a
  \<^verbatim>\<open>TypeError\<close>. \<^verbatim>\<open>a - b\<close> is the difference of two numbers or of two sets, and a
  \<^verbatim>\<open>TypeError\<close> for everything else.
\<close>

fun py_add :: "pyval \<Rightarrow> pyval \<Rightarrow> py_error + pyval" where
  "py_add (PStr s) (PStr t) = Inr (PStr (s @ t))"
| "py_add (PList xs) (PList ys) = Inr (PList (xs @ ys))"
| "py_add a b =
     (case (int_of a, int_of b) of
        (Some m, Some n) \<Rightarrow> Inr (PInt (m + n))
      | _ \<Rightarrow> Inl TypeError)"

fun py_sub :: "pyval \<Rightarrow> pyval \<Rightarrow> py_error + pyval" where
  "py_sub (PSet A) (PSet B) = Inr (PSet (A - B))"
| "py_sub a b =
     (case (int_of a, int_of b) of
        (Some m, Some n) \<Rightarrow> Inr (PInt (m - n))
      | _ \<Rightarrow> Inl TypeError)"

text \<open>
  \<^verbatim>\<open>v < n\<close> and \<^verbatim>\<open>v <= n\<close> against an integer \<open>n\<close>: a number is compared, any other value
  raises \<^verbatim>\<open>TypeError\<close>.
\<close>

definition py_lt_int :: "pyval \<Rightarrow> int \<Rightarrow> py_error + bool" where
  "py_lt_int v n = (case int_of v of Some m \<Rightarrow> Inr (m < n) | None \<Rightarrow> Inl TypeError)"

definition py_le_int :: "pyval \<Rightarrow> int \<Rightarrow> py_error + bool" where
  "py_le_int v n = (case int_of v of Some m \<Rightarrow> Inr (m \<le> n) | None \<Rightarrow> Inl TypeError)"

text \<open>Lists, dictionaries and sets cannot be hashed, so they cannot be looked up as keys.\<close>

fun hashable :: "pyval \<Rightarrow> bool" where
  "hashable (PList xs) = False"
| "hashable (PDict kvs) = False"
| "hashable (PSet A) = False"
| "hashable v = True"

text \<open>
  \<^verbatim>\<open>d[k]\<close> and \<^verbatim>\<open>d.get(k, default)\<close> for any value \<open>k\<close>. Hashing comes first, so an
  unhashable key raises \<^verbatim>\<open>TypeError\<close> even in the empty dictionary; a hashable key that
  is no string is never among the string keys.
\<close>

fun dict_getitem :: "stock \<Rightarrow> pyval \<Rightarrow> py_error + pyval" where
  "dict_getitem d (PStr s) = (case map_of d s of None \<Rightarrow> Inl KeyError | Some v \<Rightarrow> Inr v)"
| "dict_getitem d k = (if hashable k then Inl KeyError else Inl TypeError)"

fun dict_get :: "stock \<Rightarrow> pyval \<Rightarrow> pyval \<Rightarrow> py_error + pyval" where
  "dict_get d (PStr s) dflt = (case map_of d s of None \<Rightarrow> Inr dflt | Some v \<Rightarrow> Inr v)"
| "dict_get d k dflt = (if hashable k then Inr dflt else Inl TypeError)"

text \<open>\<^verbatim>\<open>d[s] = v\<close> and \<^verbatim>\<open>del d[s]\<close> for a string key \<open>s\<close>.\<close>

fun dict_setitem :: "stock \<Rightarrow> string \<Rightarrow> pyval \<Rightarrow> stock" where
  "dict_setitem [] s v = [(s, v)]"
| "dict_setitem ((k, w) # d) s v = (if k = s then (k, v) # d else (k, w) # dict_setitem d s v)"

fun dict_delitem :: "stock \<Rightarrow> string \<Rightarrow> stock" where
  "dict_delitem [] s = []"
| "dict_delitem ((k, w) # d) s = (if k = s then dict_delitem d s else (k, w) # dict_delitem d s)"

section \<open>Adding\<close>

text \<open>
  A log entry is the text \<^verbatim>\<open>f"{datetime.now()}: Added {qty} of {item}"\<close>: the reading of
  the clock, the quantity and the item as they were passed. The clock reading is an
  argument of the model.
\<close>

type_synonym timestamp = nat

datatype log_entry = Added timestamp pyval pyval

text \<open>
  \<^verbatim>\<open>add_item\<close> from its first test on, for the list \<^verbatim>\<open>logs\<close> and the dictionary
  \<^verbatim>\<open>stock_data\<close> the function works on. The second equation is the case
  \<^verbatim>\<open>not isinstance(item, str)\<close>. The function has no handler, so a \<^verbatim>\<open>TypeError\<close> of
  the addition leaves it; nothing has been stored by then. The results are what is
  printed, the list and the dictionary.
\<close>

fun add_item ::
  "timestamp \<Rightarrow> pyval \<Rightarrow> pyval \<Rightarrow> log_entry list \<Rightarrow> stock \<Rightarrow>
     py_error + (message option \<times> log_entry list \<times> stock)" where
  "add_item now (PStr s) qty logs stock_data =
     (if \<not> isinstance_int qty then Inr (Some InvalidInputTypes, logs, stock_data)
      else
        case py_lt_int qty 0 of
          Inl e \<Rightarrow> Inl e
        | Inr negative \<Rightarrow>
            if negative then Inr (Some NegativeQuantity, logs, stock_data)
            else if s = [] then Inr (None, logs, stock_data)
            else
              (case dict_get stock_data (PStr s) (PInt 0) of
                 Inl e \<Rightarrow> Inl e
               | Inr old \<Rightarrow>
                   (case py_add old qty of
                      Inl e \<Rightarrow> Inl e
                    | Inr new \<Rightarrow>
                        Inr (None, logs @ [Added now qty (PStr s)],
                             dict_setitem stock_data s new))))"
| "add_item now item qty logs stock_data = Inr (Some InvalidInputTypes, logs, stock_data)"

section \<open>Removing and querying\<close>

text \<open>
  The body of the \<^verbatim>\<open>try\<close> in \<^verbatim>\<open>remove_item\<close>: the exception it ends with, if any, and
  the dictionary as the statements executed so far have left it.
  \<^verbatim>\<open>stock_data[item] -= qty\<close> reads the entry, subtracts, and stores the difference; only
  then is the entry read again and compared with zero, so an exception of the comparison
  finds the difference already stored. An item that is no string fails at the first
  read: no key of the dictionary equals it.
\<close>

fun remove_item_try :: "pyval \<Rightarrow> pyval \<Rightarrow> stock \<Rightarrow> py_error option \<times> stock" where
  "remove_item_try (PStr s) qty stock_data =
     (case dict_getitem stock_data (PStr s) of
        Inl e \<Rightarrow> (Some e, stock_data)
      | Inr old \<Rightarrow>
          (case py_sub old qty of
             Inl e \<Rightarrow> (Some e, stock_data)
           | Inr new \<Rightarrow>
               (let stock1 = dict_setitem stock_data s new in
                case dict_getitem stock1 (PStr s) of
                  Inl e \<Rightarrow> (Some e, stock1)
                | Inr cur \<Rightarrow>
                    (case py_le_int cur 0 of
                       Inl e \<Rightarrow> (Some e, stock1)
                     | Inr b \<Rightarrow> (None, if b then dict_delitem stock1 s else stock1)))))"
| "remove_item_try item qty stock_data =
     (if hashable item then (Some KeyError, stock_data) else (Some TypeError, stock_data))"

text \<open>
  \<^verbatim>\<open>remove_item\<close> with its two handlers: what it prints, and the dictionary afterwards.
\<close>

definition remove_item :: "pyval \<Rightarrow> pyval \<Rightarrow> stock \<Rightarrow> message option \<times> stock" where
  "remove_item item qty stock_data =
     (case remove_item_try item qty stock_data of
        (None, stock') \<Rightarrow> (None, stock')
      | (Some KeyError, stock') \<Rightarrow> (Some (ItemNotFound item), stock')
      | (Some TypeError, stock') \<Rightarrow> (Some InvalidData, stock'))"

text \<open>\<^verbatim>\<open>get_qty\<close> has no handler: an exception of \<^verbatim>\<open>dict.get\<close> leaves the function.\<close>

definition get_qty :: "pyval \<Rightarrow> stock \<Rightarrow> py_error + pyval" where
  "get_qty item stock_data = dict_get stock_data item (PInt 0)"

section \<open>Low stock\<close>

text \<open>
  \<^verbatim>\<open>[item for item, qty in stock_data.items() if qty < threshold]\<close>, entry by entry in
  iteration order. The threshold is an integer, as the function documents it (5 when
  omitted); a stored value that is no number makes the comparison, and with it the whole
  call, raise \<^verbatim>\<open>TypeError\<close>.
\<close>

fun check_low_items :: "stock \<Rightarrow> int \<Rightarrow> py_error + string list" where
  "check_low_items [] threshold = Inr []"
| "check_low_items ((item, qty) # rest) threshold =
     (case py_lt_int qty threshold of
        Inl e \<Rightarrow> Inl e
      | Inr low \<Rightarrow>
          (case check_low_items rest threshold of
             Inl e \<Rightarrow> Inl e
           | Inr items \<Rightarrow> Inr (if low then item # items else items)))"

section \<open>Persistence\<close>

text \<open>
  A file holds bytes: either the UTF-8 encoding of a text, or bytes that are the encoding
  of no text. For every path the file system records what is stored there, if a file
  exists, and whether opening it for reading and for writing succeeds. A path that cannot
  be opened for writing stands for a missing directory, a directory in place of the file,
  or missing permissions alike: \<^verbatim>\<open>open\<close> raises an \<^verbatim>\<open>OSError\<close> and the file system stays
  as it is. A write that has been opened is taken to complete.
\<close>

datatype file_content = Utf8 string | NotUtf8

record fnode =
  content :: "file_content option"
  may_read :: bool
  may_write :: bool

type_synonym filesystem = "string \<Rightarrow> fnode"

text \<open>
  The exceptions of opening, reading and decoding a file. \<^verbatim>\<open>OtherOSError\<close> is any
  \<^verbatim>\<open>OSError\<close> besides \<^verbatim>\<open>FileNotFoundError\<close>.
\<close>

datatype io_error =
    FileNotFoundError
  | OtherOSError
  | UnicodeDecodeError
  | JSONDecodeError
  | RecursionError

text \<open>
  \<^verbatim>\<open>open(path, "r", encoding="utf-8")\<close> and the reading of the whole file, which is where
  the bytes are decoded; \<^verbatim>\<open>open(path, "w", encoding="utf-8")\<close> and the writing of a text.
\<close>

definition open_read :: "filesystem \<Rightarrow> string \<Rightarrow> io_error + string" where
  "open_read fs path =
     (case content (fs path) of
        None \<Rightarrow> Inl FileNotFoundError
      | Some bytes \<Rightarrow>
          if \<not> may_read (fs path) then Inl OtherOSError
          else (case bytes of Utf8 body \<Rightarrow> Inr body | NotUtf8 \<Rightarrow> Inl UnicodeDecodeError))"


text \<open>
  The \<^verbatim>\<open>json\<close> module is not part of the program. Its two functions are parameters:
  \<^verbatim>\<open>json.dump(v, file, indent=4)\<close> as the text it writes, and \<^verbatim>\<open>json.load\<close> as the value
  it decodes from a text or the exception it raises: \<^verbatim>\<open>json.JSONDecodeError\<close> for a text
  that is no JSON, \<^verbatim>\<open>RecursionError\<close> for one nested too deeply. The model does not
  cover \<^verbatim>\<open>json.dump\<close> raising, as it does for a value JSON has no encoding for.
\<close>

record json_module =
  json_dump :: "pyval \<Rightarrow> string"
  json_load :: "string \<Rightarrow> io_error + pyval"

text \<open>
  The body of the \<^verbatim>\<open>try\<close> in \<^verbatim>\<open>load_data\<close>: the file is opened, read and decoded.
\<close>

definition load_data_try :: "json_module \<Rightarrow> filesystem \<Rightarrow> string \<Rightarrow> io_error + pyval" where
  "load_data_try J fs file_path =
     (case open_read fs file_path of
        Inl e \<Rightarrow> Inl e
      | Inr body \<Rightarrow> json_load J body)"

text \<open>
  \<^verbatim>\<open>load_data\<close> handles \<^verbatim>\<open>FileNotFoundError\<close> and \<^verbatim>\<open>JSONDecodeError\<close>; every other
  exception leaves the function. What was decoded is returned as it is, dictionary or not.
\<close>

definition load_data ::
  "json_module \<Rightarrow> filesystem \<Rightarrow> string \<Rightarrow> io_error + (message option \<times> pyval)" where
  "load_data J fs file_path =
     (case load_data_try J fs file_path of
        Inr v \<Rightarrow> Inr (None, v)
      | Inl FileNotFoundError \<Rightarrow> Inr (Some NoInventoryFile, PDict [])
      | Inl JSONDecodeError \<Rightarrow> Inr (Some DecodeFailure, PDict [])
      | Inl e \<Rightarrow> Inl e)"


section \<open>Optional arguments of \<open>add_item\<close>\<close>



section \<open>Sequences of calls and the notions the properties use\<close>

datatype call = AddItem timestamp pyval pyval | RemoveItem pyval pyval

text \<open>
  A caller that makes the calls one after the other on the same list and dictionary. An
  exception that leaves \<^verbatim>\<open>add_item\<close> ends the run.
\<close>

fun run_calls ::
  "call list \<Rightarrow> log_entry list \<times> stock \<Rightarrow> py_error + (log_entry list \<times> stock)" where
  "run_calls [] st = Inr st"
| "run_calls (AddItem now item qty # cs) (logs, stock_data) =
     (case add_item now item qty logs stock_data of
        Inl e \<Rightarrow> Inl e
      | Inr (m, logs', stock') \<Rightarrow> run_calls cs (logs', stock'))"
| "run_calls (RemoveItem item qty # cs) (logs, stock_data) =
     run_calls cs (logs, snd (remove_item item qty stock_data))"

text \<open>Every stored quantity is an integer greater than zero.\<close>

fun positive_entry :: "string \<times> pyval \<Rightarrow> bool" where
  "positive_entry (k, PInt n) = (0 < n)"
| "positive_entry (k, v) = False"

definition quantities_positive :: "stock \<Rightarrow> bool" where
  "quantities_positive d = list_all positive_entry d"

text \<open>Every stored value is an integer.\<close>

fun int_entry :: "string \<times> pyval \<Rightarrow> bool" where
  "int_entry (k, PInt n) = True"
| "int_entry (k, v) = False"

definition int_valued :: "stock \<Rightarrow> bool" where
  "int_valued d = list_all int_entry d"

text \<open>
  The four conditions under which \<^verbatim>\<open>add_item\<close> is said to reject: the item is no string,
  the quantity is no integer, the quantity is negative, the item is the empty string.
\<close>

definition add_rejects :: "pyval \<Rightarrow> pyval \<Rightarrow> bool" where
  "add_rejects item qty =
     (\<not> isinstance_str item \<or> \<not> isinstance_int qty
      \<or> (case int_of qty of Some n \<Rightarrow> n < 0 | None \<Rightarrow> False) \<or> item = PStr [])"

text \<open>
  The number in stock for a name: zero when the name is absent, \<open>None\<close> when what is stored
  is no number.
\<close>

definition quantity :: "stock \<Rightarrow> string \<Rightarrow> int option" where
  "quantity d s = (case map_of d s of None \<Rightarrow> Some 0 | Some v \<Rightarrow> int_of v)"



text \<open>An entry whose quantity is an integer strictly below the threshold.\<close>

fun low_entry :: "int \<Rightarrow> string \<times> pyval \<Rightarrow> bool" where
  "low_entry t (k, PInt n) = (n < t)"
| "low_entry t (k, v) = False"

text \<open>A call that is not \<^verbatim>\<open>add_item\<close> with the quantity 0 (or \<^verbatim>\<open>False\<close>).\<close>

fun nonzero_add :: "call \<Rightarrow> bool" where
  "nonzero_add (AddItem now item qty) = (int_of qty \<noteq> Some 0)"
| "nonzero_add (RemoveItem item qty) = True"

section \<open>Sample files and a fragment of the JSON codec\<close>

text \<open>
  What \<^verbatim>\<open>json.dump(..., indent=4)\<close> writes for \<^verbatim>\<open>{"apple": 7}\<close>.
\<close>

definition apple_text :: string where
  \<open>apple_text = ''{\<newline>    "apple": 7\<newline>}''\<close>

text \<open>
  A stand-in for the codec in examples, right on the dictionaries \<^verbatim>\<open>{"apple": 7}\<close> and
  \<^verbatim>\<open>{}\<close> and on \<^verbatim>\<open>None\<close>, which are the only values the examples encode. Of the texts
  it decodes the three it writes; every other text, \<^verbatim>\<open>not json\<close> among them, is a
  decoding error.
\<close>

definition json_fragment :: json_module where
  "json_fragment =
     \<lparr>json_dump = (\<lambda>v. if v = PDict [(''apple'', PInt 7)] then apple_text
                        else if v = PDict [] then ''{}'' else ''null''),
      json_load = (\<lambda>t. if t = apple_text then Inr (PDict [(''apple'', PInt 7)])
                        else if t = ''{}'' then Inr (PDict [])
                        else if t = ''null'' then Inr PNone else Inl JSONDecodeError)\<rparr>"

text \<open>
  Four file systems: one without files where every path can be created and read, one
  without files where no path can be opened, one where \<^verbatim>\<open>inventory.json\<close> holds the
  text \<^verbatim>\<open>not json\<close>, and one where it holds bytes that are no UTF-8, such as the single
  byte \<^verbatim>\<open>0xFF\<close>.
\<close>

definition fresh_fs :: filesystem where
  "fresh_fs = (\<lambda>p. \<lparr>content = None, may_read = True, may_write = True\<rparr>)"


definition garbled_fs :: filesystem where
  "garbled_fs =
     fresh_fs(''inventory.json'' :=
       \<lparr>content = Some (Utf8 ''not json''), may_read = True, may_write = True\<rparr>)"

definition binary_fs :: filesystem where
  "binary_fs =
     fresh_fs(''inventory.json'' :=
       \<lparr>content = Some NotUtf8, may_read = True, may_write = True\<rparr>)"

section \<open>Facts about the dictionary operations\<close>

lemma map_of_dict_setitem:
  "map_of (dict_setitem d s v) k = (if k = s then Some v else map_of d k)"
  by (induction d) auto

lemma map_of_dict_delitem:
  "map_of (dict_delitem d s) k = (if k = s then None else map_of d k)"
  by (induction d) auto

lemma keys_dict_delitem: "s \<notin> fst ` set (dict_delitem d s)"
  by (induction d) (auto split: if_splits)

section \<open>Facts about values\<close>

lemma py_add_numbers:
  "int_of a = Some m \<Longrightarrow> int_of b = Some n \<Longrightarrow> py_add a b = Inr (PInt (m + n))"
  by (cases a; cases b) auto


lemma py_sub_numbers:
  "int_of a = Some m \<Longrightarrow> int_of b = Some n \<Longrightarrow> py_sub a b = Inr (PInt (m - n))"
  by (cases a; cases b) auto



lemma py_sub_result:
  "py_sub a b = Inr c \<Longrightarrow>
     (\<exists>m n. int_of a = Some m \<and> int_of b = Some n \<and> c = PInt (m - n))
     \<or> (\<exists>A B. a = PSet A \<and> b = PSet B \<and> c = PSet (A - B))"
  by (cases a; cases b) (auto split: if_splits)

lemma isinstance_int_iff: "isinstance_int v \<longleftrightarrow> int_of v \<noteq> None"
  by (cases v) auto

lemma isinstance_str_iff: "isinstance_str v \<longleftrightarrow> (\<exists>s. v = PStr s)"
  by (cases v) auto

section \<open>\<open>add_item\<close>: rejection and increment\<close>

lemma add_item_rejected:
  "add_rejects item qty \<Longrightarrow> \<exists>m. add_item now item qty logs sd = Inr (m, logs, sd)"
  by (cases item; cases qty) (auto simp: add_rejects_def py_lt_int_def split: if_splits)

lemma add_item_accepted:
  assumes "\<not> add_rejects (PStr s) qty" "quantity sd s = Some m"
  shows "\<exists>n. int_of qty = Some n \<and> 0 \<le> n \<and>
           add_item now (PStr s) qty logs sd =
             Inr (None, logs @ [Added now qty (PStr s)], dict_setitem sd s (PInt (m + n)))"
proof -
  from assms(1) obtain n where n: "int_of qty = Some n" "0 \<le> n" and s: "s \<noteq> []"
    by (auto simp: add_rejects_def isinstance_int_iff split: option.splits)
  from assms(2) have "\<exists>old. dict_get sd (PStr s) (PInt 0) = Inr old \<and> int_of old = Some m"
    by (auto simp: quantity_def split: option.splits)
  then obtain old where old: "dict_get sd (PStr s) (PInt 0) = Inr old" "int_of old = Some m"
    by blast
  have "py_add old qty = Inr (PInt (m + n))"
    using old n by (simp add: py_add_numbers)
  with n s old show ?thesis
    by (simp add: py_lt_int_def isinstance_int_iff)
qed





section \<open>\<open>remove_item\<close>\<close>

lemma remove_item_try_error:
  assumes "fst (remove_item_try item qty sd) \<noteq> None"
  shows "snd (remove_item_try item qty sd) = sd
       \<or> (\<exists>k old new. item = PStr k \<and> map_of sd k = Some old \<and> py_sub old qty = Inr new
              \<and> py_le_int new 0 = Inl TypeError
              \<and> snd (remove_item_try item qty sd) = dict_setitem sd k new)"
proof (cases item)
  case (PStr k)
  show ?thesis
  proof (cases "map_of sd k")
    case None
    with PStr show ?thesis
      by simp
  next
    case (Some old)
    show ?thesis
    proof (cases "py_sub old qty")
      case (Inl e)
      with PStr Some show ?thesis
        by simp
    next
      case (Inr new)
      with PStr Some assms show ?thesis
        by (auto simp: Let_def py_le_int_def map_of_dict_setitem split: option.splits)
    qed
  qed
qed (use assms in auto)


lemma remove_item_numbers:
  assumes "map_of sd s = Some old" "int_of old = Some q" "int_of qty = Some n"
  shows "remove_item (PStr s) qty sd =
           (None, if q - n \<le> 0 then dict_delitem (dict_setitem sd s (PInt (q - n))) s
                  else dict_setitem sd s (PInt (q - n)))"
  using assms py_sub_numbers[OF assms(2,3)]
  by (simp add: remove_item_def py_le_int_def map_of_dict_setitem)

text \<open>
  Claim C3. If the item is stored with an integer quantity \<open>q\<close> and \<open>qty\<close> is an integer
  with \<open>q \<le> qty\<close>, then after \<^verbatim>\<open>remove_item(item, qty)\<close> the item is no key of the
  inventory any more, and \<^verbatim>\<open>get_qty(item)\<close> returns 0.
\<close>

theorem remove_item_at_least_stock:
  assumes "map_of sd s = Some (PInt q)" "q \<le> n"
  shows "\<exists>sd'. remove_item (PStr s) (PInt n) sd = (None, sd')
           \<and> map_of sd' s = None \<and> s \<notin> fst ` set sd'
           \<and> get_qty (PStr s) sd' = Inr (PInt 0)"
proof -
  let ?sd' = "dict_delitem (dict_setitem sd s (PInt (q - n))) s"
  have "remove_item (PStr s) (PInt n) sd = (None, ?sd')"
    using assms remove_item_numbers[of sd s "PInt q" q "PInt n" n] by simp
  moreover have "map_of ?sd' s = None"
    by (simp add: map_of_dict_delitem)
  moreover have "s \<notin> fst ` set ?sd'"
    by (rule keys_dict_delitem)
  moreover have "get_qty (PStr s) ?sd' = Inr (PInt 0)"
    by (simp add: get_qty_def map_of_dict_delitem)
  ultimately show ?thesis
    by blast
qed

theorem remove_item_at_least_stock_witness:
  "map_of [(''apple'', PInt 7), (''pear'', PInt 2)] ''apple'' = Some (PInt 7) \<and> (7::int) \<le> 9
   \<and> remove_item (PStr ''apple'') (PInt 9) [(''apple'', PInt 7), (''pear'', PInt 2)]
        = (None, [(''pear'', PInt 2)])
   \<and> get_qty (PStr ''apple'') [(''pear'', PInt 2)] = Inr (PInt 0)"
  using remove_item_at_least_stock
    [of "[(''apple'', PInt 7), (''pear'', PInt 2)]" "''apple''" 7 9]
  by (simp add: remove_item_def py_le_int_def get_qty_def)




text \<open>
  Claim C5. If the item is stored with an integer quantity \<open>q > 0\<close> and \<open>qty\<close> is a
  negative integer, \<^verbatim>\<open>remove_item(item, qty)\<close> raises the stored quantity to \<open>q - qty\<close>,
  which is greater than \<open>q\<close>: the entry stays, in its place, and no other entry changes.
\<close>

theorem remove_item_negative_increases:
  assumes "map_of sd s = Some (PInt q)" "0 < q" "n < 0"
  shows "remove_item (PStr s) (PInt n) sd = (None, dict_setitem sd s (PInt (q - n)))
       \<and> map_of (dict_setitem sd s (PInt (q - n))) = (map_of sd)(s \<mapsto> PInt (q - n))
       \<and> get_qty (PStr s) (dict_setitem sd s (PInt (q - n))) = Inr (PInt (q - n))
       \<and> q < q - n"
proof -
  have "remove_item (PStr s) (PInt n) sd = (None, dict_setitem sd s (PInt (q - n)))"
    using assms remove_item_numbers[of sd s "PInt q" q "PInt n" n] by simp
  moreover have "map_of (dict_setitem sd s (PInt (q - n))) = (map_of sd)(s \<mapsto> PInt (q - n))"
    by (rule ext) (simp add: map_of_dict_setitem)
  moreover have "get_qty (PStr s) (dict_setitem sd s (PInt (q - n))) = Inr (PInt (q - n))"
    by (simp add: get_qty_def map_of_dict_setitem)
  ultimately show ?thesis
    using assms by simp
qed

theorem remove_item_negative_increases_witness:
  "map_of [(''apple'', PInt 7), (''pear'', PInt 2)] ''apple'' = Some (PInt 7) \<and> (0::int) < 7
   \<and> (-3::int) < 0
   \<and> remove_item (PStr ''apple'') (PInt (-3)) [(''apple'', PInt 7), (''pear'', PInt 2)]
        = (None, [(''apple'', PInt 10), (''pear'', PInt 2)])"
  using remove_item_negative_increases
    [of "[(''apple'', PInt 7), (''pear'', PInt 2)]" "''apple''" 7 "-3"]
  by simp

section \<open>\<open>check_low_items\<close>\<close>

lemma check_low_items_int_valued:
  "int_valued sd \<Longrightarrow> check_low_items sd t = Inr (map fst (filter (low_entry t) sd))"
proof (induction sd)
  case Nil
  then show ?case
    by simp
next
  case (Cons e sd)
  obtain k v where e: "e = (k, v)"
    by (cases e)
  with Cons.prems obtain n where v: "v = PInt n"
    by (cases v) (auto simp: int_valued_def)
  from Cons.prems have "int_valued sd"
    by (simp add: int_valued_def)
  with Cons.IH e v show ?case
    by (simp add: py_lt_int_def)
qed

text \<open>
  Claim C6. For an inventory whose values are integers and an integer threshold,
  \<^verbatim>\<open>check_low_items\<close> returns, in iteration order, the names of the entries with a
  quantity strictly below the threshold: a name is in the result exactly if it is stored
  with such a quantity. The result is empty when the threshold is at most 0 and no
  quantity is negative.
\<close>

theorem check_low_items_exact:
  assumes "int_valued sd"
  shows "check_low_items sd t = Inr (map fst (filter (low_entry t) sd))
       \<and> (\<forall>k. k \<in> set (map fst (filter (low_entry t) sd))
                \<longleftrightarrow> (\<exists>n. (k, PInt n) \<in> set sd \<and> n < t))
       \<and> (t \<le> 0 \<and> (\<forall>k n. (k, PInt n) \<in> set sd \<longrightarrow> 0 \<le> n) \<longrightarrow>
            check_low_items sd t = Inr [])"
proof -
  have eq: "check_low_items sd t = Inr (map fst (filter (low_entry t) sd))"
    using assms by (rule check_low_items_int_valued)
  have low: "low_entry t (k, v) \<longleftrightarrow> (\<exists>n. v = PInt n \<and> n < t)" for k v
    by (cases v) auto
  have mem: "k \<in> set (map fst (filter (low_entry t) sd))
               \<longleftrightarrow> (\<exists>n. (k, PInt n) \<in> set sd \<and> n < t)" for k
    by (force simp: low)
  have emp: "check_low_items sd t = Inr []"
    if "t \<le> 0" "\<forall>k n. (k, PInt n) \<in> set sd \<longrightarrow> 0 \<le> n"
  proof -
    have "\<not> low_entry t (k, v)" if "(k, v) \<in> set sd" for k v
      using that \<open>t \<le> 0\<close> \<open>\<forall>k n. (k, PInt n) \<in> set sd \<longrightarrow> 0 \<le> n\<close>
      by (fastforce simp: low)
    then have "filter (low_entry t) sd = []"
      by (auto simp: filter_empty_conv)
    with eq show ?thesis
      by simp
  qed
  from eq mem emp show ?thesis
    by blast
qed

theorem check_low_items_exact_witness:
  "int_valued [(''apple'', PInt 7), (''pear'', PInt 12), (''fig'', PInt 0)]
   \<and> check_low_items [(''apple'', PInt 7), (''pear'', PInt 12), (''fig'', PInt 0)] 8
        = Inr [''apple'', ''fig'']
   \<and> check_low_items [(''apple'', PInt 7), (''pear'', PInt 12), (''fig'', PInt 0)] 0 = Inr []"
  using check_low_items_exact [of "[(''apple'', PInt 7), (''pear'', PInt 12), (''fig'', PInt 0)]" 8]
        check_low_items_exact [of "[(''apple'', PInt 7), (''pear'', PInt 12), (''fig'', PInt 0)]" 0]
  by (simp add: int_valued_def)

section \<open>Sums of added quantities and \<open>get_qty\<close>\<close>











section \<open>The stored quantities under sequences of calls\<close>

lemma positive_quantity:
  "quantities_positive sd \<Longrightarrow> \<exists>q. quantity sd k = Some q \<and> 0 \<le> q"
proof (induction sd)
  case Nil
  then show ?case by (simp add: quantity_def)
next
  case (Cons e sd)
  obtain k' v where e: "e = (k', v)" by (cases e)
  with Cons.prems obtain n where "v = PInt n" "0 < n"
    by (cases v) (auto simp: quantities_positive_def)
  with Cons e show ?case by (auto simp: quantity_def quantities_positive_def)
qed

lemma positive_dict_setitem:
  "quantities_positive sd \<Longrightarrow> 0 < x \<Longrightarrow> quantities_positive (dict_setitem sd k (PInt x))"
  by (induction sd) (auto simp: quantities_positive_def)

lemma dict_delitem_setitem: "dict_delitem (dict_setitem sd k v) k = dict_delitem sd k"
  by (induction sd) auto

lemma positive_dict_delitem:
  "quantities_positive sd \<Longrightarrow> quantities_positive (dict_delitem sd k)"
  by (induction sd) (auto simp: quantities_positive_def)

lemma add_item_keeps_positive:
  assumes "quantities_positive sd" "int_of qty \<noteq> Some 0"
    "add_item now item qty logs sd = Inr (m, logs', sd')"
  shows "quantities_positive sd'"
proof (cases "add_rejects item qty")
  case True
  from add_item_rejected[OF True, of now logs sd] assms show ?thesis by auto
next
  case False
  then obtain s where s: "item = PStr s"
    by (auto simp: add_rejects_def isinstance_str_iff)
  from positive_quantity[OF assms(1)] obtain q where q: "quantity sd s = Some q" "0 \<le> q" by blast
  from add_item_accepted[OF False[unfolded s] q(1), of now logs] obtain n where
    n: "int_of qty = Some n" "0 \<le> n"
       "add_item now (PStr s) qty logs sd = Inr (None, logs @ [Added now qty (PStr s)], dict_setitem sd s (PInt (q + n)))"
    by blast
  from n assms(2) have "0 < q + n" using q(2) by simp
  with assms(1) have "quantities_positive (dict_setitem sd s (PInt (q + n)))"
    by (simp add: positive_dict_setitem)
  with n(3) assms(3) s show ?thesis by simp
qed

lemma positive_lookup:
  "quantities_positive sd \<Longrightarrow> map_of sd s = Some v \<Longrightarrow> \<exists>n. v = PInt n \<and> 0 < n"
  by (induction sd) (auto simp: quantities_positive_def split: if_splits elim: positive_entry.elims)

lemma remove_item_keeps_positive:
  assumes "quantities_positive sd"
  shows "quantities_positive (snd (remove_item item qty sd))"
proof (cases "fst (remove_item_try item qty sd)")
  case (Some e)
  then have report: "fst (remove_item_try item qty sd) \<noteq> None"
    by simp
  have "py_le_int new 0 \<noteq> Inl TypeError"
    if "map_of sd k = Some old" "py_sub old qty = Inr new" for k old new
  proof -
    from positive_lookup[OF assms that(1)] obtain q where "old = PInt q"
      by blast
    with py_sub_result[OF that(2)] show ?thesis
      by (auto simp: py_le_int_def)
  qed
  with remove_item_try_error[OF report]
  have "snd (remove_item_try item qty sd) = sd"
    by blast
  with Some assms show ?thesis
    by (cases "remove_item_try item qty sd"; cases e) (auto simp: remove_item_def)
next
  case None
  then obtain s old new where item: "item = PStr s" and old: "map_of sd s = Some old"
    and new: "py_sub old qty = Inr new"
    by (cases item) (auto split: option.splits sum.splits)
  from positive_lookup[OF assms old] obtain q where q: "old = PInt q"
    by blast
  with py_sub_result[OF new] obtain n where "int_of qty = Some n"
    by auto
  with q have "int_of old = Some q" "int_of qty = Some n"
    by simp_all
  from remove_item_numbers[OF old this] assms show ?thesis
    by (simp add: item dict_delitem_setitem positive_dict_delitem positive_dict_setitem)
qed

lemma run_calls_keeps_positive:
  assumes "quantities_positive sd" "list_all nonzero_add cs"
    "run_calls cs (logs, sd) = Inr (logs', sd')"
  shows "quantities_positive sd'"
  using assms
proof (induction cs arbitrary: logs sd)
  case Nil
  then show ?case by simp
next
  case (Cons c cs)
  show ?case
  proof (cases c)
    case (AddItem now item qty)
    with Cons.prems(3) obtain m logs1 sd1 where
      step: "add_item now item qty logs sd = Inr (m, logs1, sd1)"
      and rest: "run_calls cs (logs1, sd1) = Inr (logs', sd')"
      by (auto split: sum.splits)
    from Cons.prems(2) AddItem have "int_of qty \<noteq> Some 0" by simp
    from add_item_keeps_positive[OF Cons.prems(1) this step]
    have "quantities_positive sd1" .
    from Cons.IH[OF this _ rest] Cons.prems(2) show ?thesis by simp
  next
    case (RemoveItem item qty)
    with Cons.prems(3)
    have rest: "run_calls cs (logs, snd (remove_item item qty sd)) = Inr (logs', sd')"
      by simp
    from Cons.IH[OF remove_item_keeps_positive[OF Cons.prems(1)] _ rest] Cons.prems(2)
    show ?thesis by simp
  qed
qed

text \<open>
  Claim C1. Starting from the empty inventory, no sequence of \<^verbatim>\<open>add_item\<close> and
  \<^verbatim>\<open>remove_item\<close> calls should leave an entry with a quantity of zero or less. The code
  does: \<^verbatim>\<open>add_item\<close> rejects a quantity only when \<^verbatim>\<open>qty < 0\<close>, so adding 0 of an absent
  item stores the entry with the value 0. By \<open>run_calls_keeps_positive\<close> this is the only
  way: while no call adds the quantity 0, every stored quantity stays above zero.
\<close>

theorem add_item_zero_breaks_invariant:
  "quantities_positive []
   \<and> run_calls [AddItem 0 (PStr ''apple'') (PInt 0)] ([], [])
        = Inr ([Added 0 (PInt 0) (PStr ''apple'')], [(''apple'', PInt 0)])
   \<and> \<not> quantities_positive [(''apple'', PInt 0)]"
  by (simp add: quantities_positive_def py_lt_int_def)

section \<open>Saving and loading\<close>




text \<open>
  The two conditions that \<^verbatim>\<open>load_data\<close> handles: no file at the path, and a text that
  \<^verbatim>\<open>json.load\<close> rejects with \<^verbatim>\<open>JSONDecodeError\<close>. Either way the result is the empty
  dictionary, after a message.
\<close>

lemma load_data_fresh_start:
  "(content (fs p) = None \<longrightarrow> load_data J fs p = Inr (Some NoInventoryFile, PDict []))
   \<and> (content (fs p) = Some (Utf8 body) \<and> may_read (fs p)
        \<and> json_load J body = Inl JSONDecodeError \<longrightarrow>
        load_data J fs p = Inr (Some DecodeFailure, PDict []))"
  by (simp add: load_data_def load_data_try_def open_read_def)

lemma load_data_fresh_start_example:
  "content (fresh_fs ''inventory.json'') = None
   \<and> load_data json_fragment fresh_fs ''inventory.json'' = Inr (Some NoInventoryFile, PDict [])
   \<and> content (garbled_fs ''inventory.json'') = Some (Utf8 ''not json'')
   \<and> may_read (garbled_fs ''inventory.json'')
   \<and> json_load json_fragment ''not json'' = Inl JSONDecodeError
   \<and> load_data json_fragment garbled_fs ''inventory.json'' = Inr (Some DecodeFailure, PDict [])"
  using load_data_fresh_start
          [where fs = fresh_fs and p = "''inventory.json''" and J = json_fragment]
        load_data_fresh_start
          [where fs = garbled_fs and p = "''inventory.json''" and J = json_fragment
             and body = "''not json''"]
  by (simp add: fresh_fs_def garbled_fs_def json_fragment_def apple_text_def)

text \<open>
  The exceptions that \<^verbatim>\<open>load_data\<close> does not handle leave it: another \<^verbatim>\<open>OSError\<close> of
  \<^verbatim>\<open>open\<close>, the \<^verbatim>\<open>UnicodeDecodeError\<close> of reading bytes that are no UTF-8, and the
  \<^verbatim>\<open>RecursionError\<close> of \<^verbatim>\<open>json.load\<close>.
\<close>

lemma load_data_raises:
  "(content (fs p) = Some NotUtf8 \<and> may_read (fs p) \<longrightarrow>
      load_data J fs p = Inl UnicodeDecodeError)
   \<and> (content (fs p) = Some (Utf8 body) \<and> may_read (fs p)
        \<and> json_load J body = Inl RecursionError \<longrightarrow>
        load_data J fs p = Inl RecursionError)
   \<and> (content (fs p) = Some bytes \<and> \<not> may_read (fs p) \<longrightarrow>
        load_data J fs p = Inl OtherOSError)"
  by (simp add: load_data_def load_data_try_def open_read_def)

text \<open>
  Claim C8. \<^verbatim>\<open>load_data\<close> should return the empty dictionary, raising nothing, both when
  no file exists at the path and when the file's contents are not valid JSON. The code
  does so for a missing file and for a text that \<^verbatim>\<open>json.load\<close> rejects, as
  \<open>load_data_fresh_start\<close> shows, but not for every file that is no JSON: where
  \<^verbatim>\<open>inventory.json\<close> holds bytes that are no UTF-8, reading raises \<^verbatim>\<open>UnicodeDecodeError\<close>,
  which neither handler catches, and the exception leaves \<^verbatim>\<open>load_data\<close>.
\<close>

theorem load_data_undecodable_bytes_raises:
  "content (binary_fs ''inventory.json'') = Some NotUtf8
   \<and> may_read (binary_fs ''inventory.json'')
   \<and> load_data json_fragment binary_fs ''inventory.json'' = Inl UnicodeDecodeError"
  by (simp add: load_data_def load_data_try_def open_read_def binary_fs_def fresh_fs_def)

section \<open>Omitted arguments\<close>




end
